theory Spec2Isabelle
  imports Main "HOL-Library.Word"
begin

section \<open>The PAM conversation bridge (pam\_bridge.c)\<close>

text \<open>
  The bridge is one static function, \<^verbatim>\<open>pam_msg\<close>, and three wrappers that fix the
  message style. It talks to three things outside the repository: libpam
  (\<^verbatim>\<open>pam_get_item\<close> and the numeric constants of \<^verbatim>\<open>security/pam_appl.h\<close>), the
  application's conversation callback, and libc (\<^verbatim>\<open>strlen\<close>, \<^verbatim>\<open>memset\<close>, \<^verbatim>\<open>free\<close>).
  The embedding makes each of them explicit: the constants are a record passed as a
  parameter, the handle carries the outcome of \<^verbatim>\<open>pam_get_item\<close>, the callback is a
  function on the heap, and the libc calls are operations of a small machine that
  records what it did.
\<close>

subsection \<open>Memory\<close>

type_synonym addr = nat
type_synonym byte = "8 word"

text \<open>\<^verbatim>\<open>struct pam_response { char *resp; int resp_retcode; }\<close>; \<open>None\<close> is \<^verbatim>\<open>NULL\<close>.\<close>

record pam_response =
  resp :: "addr option"
  resp_retcode :: int

text \<open>
  A live allocation is either a buffer of bytes (all the bytes of the block, not only
  the string in it) or a response envelope. An address with no object is not allocated.
\<close>

datatype obj = Chars "byte list" | Response pam_response

type_synonym heap = "addr \<Rightarrow> obj option"

subsection \<open>The interface of libpam\<close>

text \<open>\<^verbatim>\<open>struct pam_message { int msg_style; char *msg; }\<close>: the text is held by pointer.\<close>

record pam_message =
  msg_style :: int
  msg :: "addr option"

text \<open>
  The conversation callback
  \<^verbatim>\<open>int (*conv)(int num_msg, const struct pam_message **msg, struct pam_response **resp, void *appdata_ptr)\<close>.
  It sees the heap, and returns its result code, the pointer it left in \<^verbatim>\<open>*resp\<close>
  (\<open>None\<close> when it left the initial \<^verbatim>\<open>NULL\<close>) and the heap as it left it.
\<close>

type_synonym conv_fn =
  "int \<Rightarrow> pam_message list \<Rightarrow> addr option \<Rightarrow> heap \<Rightarrow> int \<times> addr option \<times> heap"

text \<open>\<^verbatim>\<open>struct pam_conv { conv; appdata_ptr }\<close>; a \<open>None\<close> function pointer is \<^verbatim>\<open>NULL\<close>.\<close>

record pam_conv =
  conv :: "conv_fn option"
  appdata_ptr :: "addr option"

text \<open>
  The handle is opaque to the bridge, which only calls \<^verbatim>\<open>pam_get_item\<close> on it: the
  handle is what that call gives for an item type, the return code and the pointer
  stored through the third argument (\<open>None\<close> is \<^verbatim>\<open>NULL\<close>).
\<close>

record pam_handle =
  pam_get_item :: "int \<Rightarrow> int \<times> pam_conv option"

text \<open>
  The constants of \<^verbatim>\<open>security/pam_appl.h\<close> that the two source files name. The header
  is not part of the repository and the values differ between Linux-PAM and OpenPAM, so
  they are a parameter.
\<close>

record pam_constants =
  PAM_SUCCESS :: int
  PAM_AUTH_ERR :: int
  PAM_USER_UNKNOWN :: int
  PAM_IGNORE :: int
  PAM_CONV_ERR :: int
  PAM_CONV :: int
  PAM_PROMPT_ECHO_ON :: int
  PAM_ERROR_MSG :: int
  PAM_TEXT_INFO :: int

text \<open>pam\_bridge.h, lines 9 to 12.\<close>

definition PAM_TOTP_SUCCESS :: "pam_constants \<Rightarrow> int" where
  "PAM_TOTP_SUCCESS K = PAM_SUCCESS K"

definition PAM_TOTP_AUTH_ERR :: "pam_constants \<Rightarrow> int" where
  "PAM_TOTP_AUTH_ERR K = PAM_AUTH_ERR K"

definition PAM_TOTP_USER_UNKNOWN :: "pam_constants \<Rightarrow> int" where
  "PAM_TOTP_USER_UNKNOWN K = PAM_USER_UNKNOWN K"

definition PAM_TOTP_IGNORE :: "pam_constants \<Rightarrow> int" where
  "PAM_TOTP_IGNORE K = PAM_IGNORE K"

subsection \<open>The machine: heap, log of effects, fault\<close>

text \<open>
  What the bridge does besides returning a value: it calls the callback, it writes
  memory and it releases memory. Each is logged; a release logs the object as it was at
  that moment. Undefined behaviour of C (a read through a pointer to no live object of
  the right kind, a string with no terminator inside its block, a release of something
  not allocated) is a fault, which stops the machine.
\<close>

datatype event =
    Conv_invoked int "pam_message list" "addr option"
  | Memset addr byte nat
  | Free addr obj

datatype fault = Bad_deref addr | Unterminated addr | Bad_memset addr | Bad_free addr

record machine =
  heap :: heap
  trace :: "event list"
  fault :: "fault option"

text \<open>\<^verbatim>\<open>strlen\<close>: the number of bytes before the first zero byte of the block.\<close>

fun nul_index :: "byte list \<Rightarrow> nat option" where
  "nul_index [] = None"
| "nul_index (b # bs) = (if b = 0 then Some 0 else map_option Suc (nul_index bs))"

definition strlen :: "heap \<Rightarrow> addr \<Rightarrow> fault + nat" where
  "strlen h p =
     (case h p of
        Some (Chars bs) \<Rightarrow> (case nul_index bs of None \<Rightarrow> Inl (Unterminated p) | Some n \<Rightarrow> Inr n)
      | _ \<Rightarrow> Inl (Bad_deref p))"

text \<open>\<^verbatim>\<open>memset(p, c, n)\<close>: the first \<open>n\<close> bytes of the block become \<open>c\<close>.\<close>

definition memset :: "addr \<Rightarrow> byte \<Rightarrow> nat \<Rightarrow> machine \<Rightarrow> machine" where
  "memset p c n s =
     (if fault s \<noteq> None then s
      else case heap s p of
             Some (Chars bs) \<Rightarrow>
               if n \<le> length bs
               then s\<lparr>heap := (heap s)(p \<mapsto> Chars (replicate n c @ drop n bs)),
                      trace := trace s @ [Memset p c n]\<rparr>
               else s\<lparr>fault := Some (Bad_memset p)\<rparr>
           | _ \<Rightarrow> s\<lparr>fault := Some (Bad_memset p)\<rparr>)"

text \<open>\<^verbatim>\<open>free(p)\<close>: the block stops being allocated.\<close>

definition free :: "addr \<Rightarrow> machine \<Rightarrow> machine" where
  "free p s =
     (if fault s \<noteq> None then s
      else case heap s p of
             None \<Rightarrow> s\<lparr>fault := Some (Bad_free p)\<rparr>
           | Some ob \<Rightarrow> s\<lparr>heap := (heap s)(p := None), trace := trace s @ [Free p ob]\<rparr>)"

subsection \<open>pam\_msg and the wrappers\<close>

text \<open>
  pam\_bridge.c, lines 6 to 32. The result is the value returned and the machine at
  the return. The three tests of line 14 are taken in the source's order, so the item
  is looked at only when \<^verbatim>\<open>pam_get_item\<close> succeeded. The source's \<^verbatim>\<open>msg\<close>, \<^verbatim>\<open>conv\<close> and
  \<^verbatim>\<open>resp\<close> are \<open>mtext\<close>, \<open>cvp\<close> and \<open>rp\<close> here (the records' fields have those names), and
  its first \<^verbatim>\<open>ret\<close>, of line 13, is \<open>ret0\<close>.
\<close>

definition pam_msg ::
  "pam_constants \<Rightarrow> pam_handle \<Rightarrow> int \<Rightarrow> addr option \<Rightarrow> heap \<Rightarrow> int \<times> machine" where
  "pam_msg K pamh style mtext h =
     (let unavailable = (PAM_CONV_ERR K, \<lparr>heap = h, trace = [], fault = None\<rparr>) in
      case pam_get_item pamh (PAM_CONV K) of (ret0, cvp) \<Rightarrow>
        (if ret0 \<noteq> PAM_SUCCESS K then unavailable
         else
          (case cvp of
             None \<Rightarrow> unavailable
           | Some cv \<Rightarrow>
              (case conv cv of
                 None \<Rightarrow> unavailable
               | Some f \<Rightarrow>
                  (let pmsg = \<lparr>msg_style = style, msg = mtext\<rparr> in
                   case f 1 [pmsg] (appdata_ptr cv) h of (ret, rp, h1) \<Rightarrow>
                     (let s1 = \<lparr>heap = h1,
                                trace = [Conv_invoked 1 [pmsg] (appdata_ptr cv)],
                                fault = None\<rparr> in
                      case rp of
                        None \<Rightarrow> (ret, s1)
                      | Some r \<Rightarrow>
                         (case h1 r of
                            Some (Response env) \<Rightarrow>
                              (case resp env of
                                 None \<Rightarrow> (ret, free r s1)
                               | Some p \<Rightarrow>
                                  (case strlen h1 p of
                                     Inl e \<Rightarrow> (ret, s1\<lparr>fault := Some e\<rparr>)
                                   | Inr n \<Rightarrow> (ret, free r (free p (memset p 0 n s1)))))
                          | _ \<Rightarrow> (ret, s1\<lparr>fault := Some (Bad_deref r)\<rparr>))))))))"

text \<open>pam\_bridge.c, lines 34 to 44.\<close>

definition pam_totp_prompt ::
  "pam_constants \<Rightarrow> pam_handle \<Rightarrow> addr option \<Rightarrow> heap \<Rightarrow> int \<times> machine" where
  "pam_totp_prompt K pamh mtext h = pam_msg K pamh (PAM_PROMPT_ECHO_ON K) mtext h"

definition pam_totp_info ::
  "pam_constants \<Rightarrow> pam_handle \<Rightarrow> addr option \<Rightarrow> heap \<Rightarrow> int \<times> machine" where
  "pam_totp_info K pamh mtext h = pam_msg K pamh (PAM_TEXT_INFO K) mtext h"

definition pam_totp_error ::
  "pam_constants \<Rightarrow> pam_handle \<Rightarrow> addr option \<Rightarrow> heap \<Rightarrow> int \<times> machine" where
  "pam_totp_error K pamh mtext h = pam_msg K pamh (PAM_ERROR_MSG K) mtext h"

subsection \<open>Observations on a run\<close>

text \<open>
  The conversation is registered on the handle when \<^verbatim>\<open>pam_get_item\<close> succeeds and gives a
  structure whose function pointer is set: the negation of the test of line 14.
\<close>

definition registered :: "pam_constants \<Rightarrow> pam_handle \<Rightarrow> pam_conv \<Rightarrow> conv_fn \<Rightarrow> bool" where
  "registered K pamh cv f \<longleftrightarrow>
     pam_get_item pamh (PAM_CONV K) = (PAM_SUCCESS K, Some cv) \<and> conv cv = Some f"

fun is_conv_event :: "event \<Rightarrow> bool" where
  "is_conv_event (Conv_invoked n ms ad) = True"
| "is_conv_event e = False"

fun is_memset :: "event \<Rightarrow> bool" where
  "is_memset (Memset p c n) = True"
| "is_memset e = False"

fun frees :: "addr \<Rightarrow> event \<Rightarrow> bool" where
  "frees p (Free q ob) = (q = p)"
| "frees p e = False"

text \<open>The object at \<open>p\<close> as it was when the run first released \<open>p\<close>.\<close>

fun released :: "addr \<Rightarrow> event list \<Rightarrow> obj option" where
  "released p [] = None"
| "released p (Free q ob # es) = (if q = p then Some ob else released p es)"
| "released p (e # es) = released p es"

text \<open>A buffer all of whose bytes are zero.\<close>

definition zeroed :: "obj \<Rightarrow> bool" where
  "zeroed ob = (case ob of Chars bs \<Rightarrow> list_all (\<lambda>b. b = 0) bs | Response env \<Rightarrow> False)"

subsection \<open>The status codes of the specification\<close>

text \<open>
  The specification speaks of a closed set of status codes, of a table that translates
  the callback's raw code into it, and of an operation that returns such a status. The
  code has no such type: its status is the \<^verbatim>\<open>int\<close> it returns. The two definitions below
  follow the specification's words, not the source: \<open>spec_translate\<close> is the table of
  section 6, and \<open>spec_sendMessage\<close> is the status that steps 1, 3 and 5 of section 4.1
  give for a call, \<open>ConversationUnavailable\<close> when the capability is absent or malformed
  and the translation of the raw code otherwise.
\<close>

datatype StatusCode =
    Success | AuthError | UserUnknown | Ignore
  | ConversationUnavailable | CallbackFailure | Unmapped int

definition spec_translate :: "pam_constants \<Rightarrow> int \<Rightarrow> StatusCode" where
  "spec_translate K code =
     (if code = PAM_SUCCESS K then Success
      else if code = PAM_AUTH_ERR K then AuthError
      else if code = PAM_USER_UNKNOWN K then UserUnknown
      else if code = PAM_IGNORE K then Ignore
      else Unmapped code)"

definition spec_sendMessage ::
  "pam_constants \<Rightarrow> pam_handle \<Rightarrow> int \<Rightarrow> addr option \<Rightarrow> heap \<Rightarrow> StatusCode" where
  "spec_sendMessage K pamh style mtext h =
     (case pam_get_item pamh (PAM_CONV K) of (ret0, cvp) \<Rightarrow>
        (if ret0 \<noteq> PAM_SUCCESS K then ConversationUnavailable
         else
          (case cvp of
             None \<Rightarrow> ConversationUnavailable
           | Some cv \<Rightarrow>
              (case conv cv of
                 None \<Rightarrow> ConversationUnavailable
               | Some f \<Rightarrow>
                   spec_translate K
                     (fst (f 1 [\<lparr>msg_style = style, msg = mtext\<rparr>] (appdata_ptr cv) h))))))"

subsection \<open>Test doubles\<close>

text \<open>
  Concrete inputs for the closed theorems: the constants as Linux-PAM's
  \<^verbatim>\<open>_pam_types.h\<close> has them, four callbacks (one that answers with an envelope at
  address 100 whose secret is the buffer at 101, one that answers with an envelope with
  no secret, one that leaves \<^verbatim>\<open>*resp\<close> alone, one that answers with an envelope whose
  secret field is the pointer of the message it was sent), a handle whose \<^verbatim>\<open>pam_get_item\<close> gives a
  chosen outcome for \<^verbatim>\<open>PAM_CONV\<close> and \<^verbatim>\<open>PAM_BAD_ITEM\<close> for the rest, and a heap that holds the
  caller's text \<^verbatim>\<open>"Code:"\<close> at address 7.
\<close>

definition linux_pam :: pam_constants where
  "linux_pam = \<lparr>PAM_SUCCESS = 0, PAM_AUTH_ERR = 7, PAM_USER_UNKNOWN = 10, PAM_IGNORE = 25,
                PAM_CONV_ERR = 19, PAM_CONV = 5, PAM_PROMPT_ECHO_ON = 2, PAM_ERROR_MSG = 3,
                PAM_TEXT_INFO = 4\<rparr>"

definition answering :: "int \<Rightarrow> byte list \<Rightarrow> conv_fn" where
  "answering rc bs n ms ad h =
     (rc, Some 100, h(100 \<mapsto> Response \<lparr>resp = Some 101, resp_retcode = 0\<rparr>, 101 \<mapsto> Chars bs))"

definition answering_empty :: "int \<Rightarrow> conv_fn" where
  "answering_empty rc n ms ad h =
     (rc, Some 100, h(100 \<mapsto> Response \<lparr>resp = None, resp_retcode = 0\<rparr>))"

definition silent :: "int \<Rightarrow> conv_fn" where
  "silent rc n ms ad h = (rc, None, h)"


definition app_conv :: "conv_fn \<Rightarrow> pam_conv" where
  "app_conv f = \<lparr>conv = Some f, appdata_ptr = Some 1\<rparr>"

definition session :: "int \<Rightarrow> pam_conv option \<Rightarrow> pam_handle" where
  "session rc cvp = \<lparr>pam_get_item = (\<lambda>item. if item = 5 then (rc, cvp) else (29, None))\<rparr>"

definition prompt_heap :: heap where
  "prompt_heap = Map.empty(7 \<mapsto> Chars [0x43, 0x6F, 0x64, 0x65, 0x3A, 0])"

section \<open>Properties\<close>

subsection \<open>The three shapes of a completed conversation\<close>

lemma nul_index_Some:
  "nul_index bs = Some n \<Longrightarrow> n < length bs \<and> bs ! n = 0"
  by (induction bs arbitrary: n) (auto split: if_splits)

lemma nul_index_prefix:
  "nul_index bs = Some n \<Longrightarrow> i < n \<Longrightarrow> bs ! i \<noteq> 0"
  by (induction bs arbitrary: n i) (auto split: if_splits nat.splits simp: nth_Cons)

lemma zeroed_prefix:
  assumes "nul_index bs = Some n"
  shows "replicate n 0 @ drop n bs = replicate (Suc n) 0 @ drop (Suc n) bs"
proof -
  from assms have "n < length bs" "bs ! n = 0" by (simp_all add: nul_index_Some)
  then have "drop n bs = 0 # drop (Suc n) bs" by (metis Cons_nth_drop_Suc)
  then show ?thesis by (simp add: replicate_app_Cons_same)
qed

lemma pam_msg_no_response:
  assumes "registered K pamh cv f"
    and "f 1 [\<lparr>msg_style = style, msg = mtext\<rparr>] (appdata_ptr cv) h = (ret, None, h1)"
  shows "pam_msg K pamh style mtext h =
         (ret, \<lparr>heap = h1,
                 trace = [Conv_invoked 1 [\<lparr>msg_style = style, msg = mtext\<rparr>] (appdata_ptr cv)],
                 fault = None\<rparr>)"
  using assms by (simp add: pam_msg_def registered_def)

lemma pam_msg_null_secret:
  assumes "registered K pamh cv f"
    and "f 1 [\<lparr>msg_style = style, msg = mtext\<rparr>] (appdata_ptr cv) h = (ret, Some r, h1)"
    and "h1 r = Some (Response env)" and "resp env = None"
  shows "pam_msg K pamh style mtext h =
         (ret, \<lparr>heap = h1(r := None),
                 trace = [Conv_invoked 1 [\<lparr>msg_style = style, msg = mtext\<rparr>] (appdata_ptr cv),
                          Free r (Response env)],
                 fault = None\<rparr>)"
  using assms by (simp add: pam_msg_def registered_def free_def)

lemma pam_msg_secret:
  assumes "registered K pamh cv f"
    and "f 1 [\<lparr>msg_style = style, msg = mtext\<rparr>] (appdata_ptr cv) h = (ret, Some r, h1)"
    and "h1 r = Some (Response env)" and "resp env = Some p"
    and "h1 p = Some (Chars bs)" and "nul_index bs = Some n"
  shows "pam_msg K pamh style mtext h =
         (ret, \<lparr>heap = h1(p := None, r := None),
                 trace = [Conv_invoked 1 [\<lparr>msg_style = style, msg = mtext\<rparr>] (appdata_ptr cv),
                          Memset p 0 n,
                          Free p (Chars (replicate n 0 @ drop n bs)),
                          Free r (Response env)],
                 fault = None\<rparr>)"
proof -
  from assms have "r \<noteq> p" by auto
  moreover from assms have "n \<le> length bs" using nul_index_Some [of bs n] by simp
  ultimately show ?thesis
    using assms by (simp add: pam_msg_def registered_def free_def memset_def strlen_def)
qed

lemma pam_msg_dispatch:
  assumes "registered K pamh cv f"
  shows "filter is_conv_event (trace (snd (pam_msg K pamh S T h)))
           = [Conv_invoked 1 [\<lparr>msg_style = S, msg = T\<rparr>] (appdata_ptr cv)]
       \<and> fst (pam_msg K pamh S T h)
           = fst (f 1 [\<lparr>msg_style = S, msg = T\<rparr>] (appdata_ptr cv) h)
       \<and> (\<forall>a. heap (snd (pam_msg K pamh S T h)) a
                 = snd (snd (f 1 [\<lparr>msg_style = S, msg = T\<rparr>] (appdata_ptr cv) h)) a
              \<or> heap (snd (pam_msg K pamh S T h)) a = None)"
  using assms
  by (auto simp: pam_msg_def registered_def free_def memset_def strlen_def Let_def
      split: prod.splits option.splits obj.splits sum.splits)

lemma pam_msg_returns_code:
  assumes "registered K pamh cv f"
    and "f 1 [\<lparr>msg_style = style, msg = mtext\<rparr>] (appdata_ptr cv) h = (ret, rp, h1)"
  shows "fst (pam_msg K pamh style mtext h) = ret"
  using assms
  by (auto simp: pam_msg_def registered_def Let_def
      split: prod.splits option.splits obj.splits sum.splits)

lemma zeroed_replicate:
  "zeroed (Chars (replicate k 0 @ bs)) = list_all (\<lambda>b. b = 0) bs"
  by (auto simp: zeroed_def list_all_iff)



subsection \<open>No conversation on the handle\<close>

text \<open>
  Claim C3. When the conversation is absent or malformed (\<^verbatim>\<open>pam_get_item\<close> does not return
  \<^verbatim>\<open>PAM_SUCCESS\<close>, or the structure it gives is \<^verbatim>\<open>NULL\<close>, or the function pointer in it is
  \<^verbatim>\<open>NULL\<close>), \<^verbatim>\<open>pam_msg\<close> returns \<^verbatim>\<open>PAM_CONV_ERR\<close> at once: no callback is invoked, nothing is
  written or released (the log is empty and the heap is the caller's), and nothing faults.
\<close>

theorem pam_msg_unavailable:
  assumes "fst (pam_get_item pamh (PAM_CONV K)) \<noteq> PAM_SUCCESS K
         \<or> snd (pam_get_item pamh (PAM_CONV K)) = None
         \<or> (\<exists>cv. snd (pam_get_item pamh (PAM_CONV K)) = Some cv \<and> conv cv = None)"
  shows "pam_msg K pamh style mtext h = (PAM_CONV_ERR K, \<lparr>heap = h, trace = [], fault = None\<rparr>)"
  using assms
  by (cases "pam_get_item pamh (PAM_CONV K)") (auto simp: pam_msg_def Let_def)

text \<open>
  The three ways at once: no structure; a retrieval that fails with \<^verbatim>\<open>PAM_SYSTEM_ERR\<close>
  although a structure is there; a structure with no function.
\<close>

theorem pam_msg_unavailable_witness:
  "pam_msg linux_pam (session 0 None) 2 (Some 7) prompt_heap
     = (19, \<lparr>heap = prompt_heap, trace = [], fault = None\<rparr>)
   \<and> pam_msg linux_pam (session 4 (Some (app_conv (silent 0)))) 2 (Some 7) prompt_heap
     = (19, \<lparr>heap = prompt_heap, trace = [], fault = None\<rparr>)
   \<and> pam_msg linux_pam (session 0 (Some \<lparr>conv = None, appdata_ptr = None\<rparr>)) 2 (Some 7) prompt_heap
     = (19, \<lparr>heap = prompt_heap, trace = [], fault = None\<rparr>)"
  using pam_msg_unavailable [of "session 0 None" linux_pam 2 "Some 7" prompt_heap]
    pam_msg_unavailable [of "session 4 (Some (app_conv (silent 0)))" linux_pam 2 "Some 7" prompt_heap]
    pam_msg_unavailable [of "session 0 (Some \<lparr>conv = None, appdata_ptr = None\<rparr>)" linux_pam 2
      "Some 7" prompt_heap]
  by (simp add: session_def linux_pam_def app_conv_def)

subsection \<open>One call of the callback\<close>

text \<open>
  Claim C6. With a conversation registered, for every style \<open>S\<close> and every text pointer
  \<open>T\<close> (so for every non-null one), the run of \<^verbatim>\<open>pam_msg\<close> holds exactly one call of the
  callback, whatever the callback answers: its count is 1 and its batch is the single
  message with style \<open>S\<close> and text \<open>T\<close>, passed with the registered \<^verbatim>\<open>appdata_ptr\<close> on the
  caller's heap. The run is the run of that one application of the registered function:
  the value returned is the code that application gives, and the heap at the return is
  the heap that application leaves, but for the blocks \<^verbatim>\<open>pam_msg\<close> has released.
\<close>

theorem pam_msg_single_dispatch:
  assumes "registered K pamh cv f"
  shows "filter is_conv_event (trace (snd (pam_msg K pamh S T h)))
           = [Conv_invoked 1 [\<lparr>msg_style = S, msg = T\<rparr>] (appdata_ptr cv)]
       \<and> fst (pam_msg K pamh S T h)
           = fst (f 1 [\<lparr>msg_style = S, msg = T\<rparr>] (appdata_ptr cv) h)
       \<and> (\<forall>a. heap (snd (pam_msg K pamh S T h)) a
                 = snd (snd (f 1 [\<lparr>msg_style = S, msg = T\<rparr>] (appdata_ptr cv) h)) a
              \<or> heap (snd (pam_msg K pamh S T h)) a = None)"
  by (rule pam_msg_dispatch [OF assms])

text \<open>
  The callback reports \<^verbatim>\<open>PAM_AUTH_ERR\<close> (7) and hands over the secret \<^verbatim>\<open>"42"\<close>: the run
  returns 7, and the text at address 7, which the callback left alone, is still there.
\<close>

theorem pam_msg_single_dispatch_witness:
  "registered linux_pam (session 0 (Some (app_conv (answering 7 [0x34, 0x32, 0]))))
     (app_conv (answering 7 [0x34, 0x32, 0])) (answering 7 [0x34, 0x32, 0])
   \<and> filter is_conv_event
       (trace (snd (pam_msg linux_pam (session 0 (Some (app_conv (answering 7 [0x34, 0x32, 0]))))
                      2 (Some 7) prompt_heap)))
     = [Conv_invoked 1 [\<lparr>msg_style = 2, msg = Some 7\<rparr>] (Some 1)]
   \<and> fst (pam_msg linux_pam (session 0 (Some (app_conv (answering 7 [0x34, 0x32, 0]))))
            2 (Some 7) prompt_heap) = 7"
proof -
  have reg: "registered linux_pam (session 0 (Some (app_conv (answering 7 [0x34, 0x32, 0]))))
               (app_conv (answering 7 [0x34, 0x32, 0])) (answering 7 [0x34, 0x32, 0])"
    by (simp add: registered_def session_def linux_pam_def app_conv_def)
  have ad: "appdata_ptr (app_conv (answering 7 [0x34, 0x32, 0])) = Some 1"
    by (simp add: app_conv_def)
  have val: "fst (answering 7 bs n ms ad h) = 7" for bs n ms ad h
    by (simp add: answering_def)
  from pam_msg_single_dispatch [OF reg, of 2 "Some 7" prompt_heap] reg show ?thesis
    by (simp add: ad val)
qed

subsection \<open>The callback leaves no response\<close>

text \<open>
  Claim C9. When the callback is invoked and leaves \<^verbatim>\<open>*resp\<close> at \<^verbatim>\<open>NULL\<close>, \<^verbatim>\<open>pam_msg\<close> zeroes
  nothing and releases nothing: the log holds the call of the callback only, the heap is
  the one the callback left, nothing faults, and the value returned is the raw code of
  the callback, whatever it is.
\<close>

theorem pam_msg_null_response:
  assumes "registered K pamh cv f"
    and "f 1 [\<lparr>msg_style = style, msg = mtext\<rparr>] (appdata_ptr cv) h = (ret, None, h1)"
  shows "fst (pam_msg K pamh style mtext h) = ret
       \<and> heap (snd (pam_msg K pamh style mtext h)) = h1
       \<and> trace (snd (pam_msg K pamh style mtext h))
           = [Conv_invoked 1 [\<lparr>msg_style = style, msg = mtext\<rparr>] (appdata_ptr cv)]
       \<and> filter is_memset (trace (snd (pam_msg K pamh style mtext h))) = []
       \<and> (\<forall>a. filter (frees a) (trace (snd (pam_msg K pamh style mtext h))) = [])
       \<and> fault (snd (pam_msg K pamh style mtext h)) = None"
  using pam_msg_no_response [OF assms] by simp

theorem pam_msg_null_response_witness:
  "registered linux_pam (session 0 (Some (app_conv (silent 19)))) (app_conv (silent 19)) (silent 19)
   \<and> silent 19 1 [\<lparr>msg_style = 4, msg = Some 7\<rparr>] (appdata_ptr (app_conv (silent 19))) prompt_heap
       = (19, None, prompt_heap)
   \<and> fst (pam_msg linux_pam (session 0 (Some (app_conv (silent 19)))) 4 (Some 7) prompt_heap) = 19
   \<and> heap (snd (pam_msg linux_pam (session 0 (Some (app_conv (silent 19)))) 4 (Some 7) prompt_heap))
       = prompt_heap
   \<and> trace (snd (pam_msg linux_pam (session 0 (Some (app_conv (silent 19)))) 4 (Some 7) prompt_heap))
       = [Conv_invoked 1 [\<lparr>msg_style = 4, msg = Some 7\<rparr>] (Some 1)]
   \<and> fault (snd (pam_msg linux_pam (session 0 (Some (app_conv (silent 19)))) 4 (Some 7) prompt_heap))
       = None"
proof -
  have reg: "registered linux_pam (session 0 (Some (app_conv (silent 19))))
               (app_conv (silent 19)) (silent 19)"
    by (simp add: registered_def session_def linux_pam_def app_conv_def)
  have run: "silent 19 1 [\<lparr>msg_style = 4, msg = Some 7\<rparr>] (appdata_ptr (app_conv (silent 19)))
               prompt_heap = (19, None, prompt_heap)"
    by (simp add: silent_def)
  from pam_msg_null_response [OF reg run] reg run show ?thesis
    by (simp add: app_conv_def)
qed

subsection \<open>Release of the envelope\<close>

text \<open>
  Claim C4. When the callback returns an envelope, \<^verbatim>\<open>pam_msg\<close> releases the envelope exactly
  once, whether its secret field is \<^verbatim>\<open>NULL\<close> or a terminated string: the log holds one
  release of the envelope's address, of the envelope as the callback left it, and the
  address is no longer allocated at the return. When the secret field is \<^verbatim>\<open>NULL\<close> the run
  is the call of the callback followed by that release, with no \<^verbatim>\<open>memset\<close> and no fault.
\<close>

theorem pam_msg_envelope_released_once:
  assumes "registered K pamh cv f"
    and "f 1 [\<lparr>msg_style = style, msg = mtext\<rparr>] (appdata_ptr cv) h = (ret, Some r, h1)"
    and "h1 r = Some (Response env)"
    and "resp env = None
       \<or> (\<exists>p bs n. resp env = Some p \<and> h1 p = Some (Chars bs) \<and> nul_index bs = Some n)"
  shows "length (filter (frees r) (trace (snd (pam_msg K pamh style mtext h)))) = 1
       \<and> released r (trace (snd (pam_msg K pamh style mtext h))) = Some (Response env)
       \<and> heap (snd (pam_msg K pamh style mtext h)) r = None
       \<and> fault (snd (pam_msg K pamh style mtext h)) = None
       \<and> (resp env = None \<longrightarrow>
            trace (snd (pam_msg K pamh style mtext h))
              = [Conv_invoked 1 [\<lparr>msg_style = style, msg = mtext\<rparr>] (appdata_ptr cv),
                 Free r (Response env)]
          \<and> filter is_memset (trace (snd (pam_msg K pamh style mtext h))) = [])"
proof (cases "resp env")
  case None
  show ?thesis
    using pam_msg_null_secret [OF assms(1,2,3) None] None by simp
next
  case (Some p)
  with assms(4) obtain bs n where s: "h1 p = Some (Chars bs)" "nul_index bs = Some n"
    by auto
  from assms(3) s(1) have "r \<noteq> p" by auto
  then show ?thesis
    using pam_msg_secret [OF assms(1,2,3) Some s] Some by simp
qed

text \<open>An envelope with no secret, and an envelope whose secret is \<^verbatim>\<open>"42"\<close>.\<close>

theorem pam_msg_envelope_released_once_witness:
  "registered linux_pam (session 0 (Some (app_conv (answering_empty 0))))
     (app_conv (answering_empty 0)) (answering_empty 0)
   \<and> trace (snd (pam_msg linux_pam (session 0 (Some (app_conv (answering_empty 0)))) 4 (Some 7)
                    prompt_heap))
       = [Conv_invoked 1 [\<lparr>msg_style = 4, msg = Some 7\<rparr>] (Some 1),
          Free 100 (Response \<lparr>resp = None, resp_retcode = 0\<rparr>)]
   \<and> heap (snd (pam_msg linux_pam (session 0 (Some (app_conv (answering_empty 0)))) 4 (Some 7)
                   prompt_heap)) 100 = None
   \<and> length (filter (frees 100)
        (trace (snd (pam_msg linux_pam (session 0 (Some (app_conv (answering 0 [0x34, 0x32, 0]))))
                       2 (Some 7) prompt_heap)))) = 1"
proof -
  let ?e0 = "\<lparr>resp = None, resp_retcode = 0\<rparr>"
  let ?e1 = "\<lparr>resp = Some 101, resp_retcode = 0\<rparr>"
  let ?bs = "[0x34, 0x32, 0] :: byte list"
  let ?h0 = "prompt_heap(100 \<mapsto> Response ?e0)"
  let ?h1 = "prompt_heap(100 \<mapsto> Response ?e1, 101 \<mapsto> Chars ?bs)"
  have reg0: "registered linux_pam (session 0 (Some (app_conv (answering_empty 0))))
                (app_conv (answering_empty 0)) (answering_empty 0)"
    by (simp add: registered_def session_def linux_pam_def app_conv_def)
  have run0: "answering_empty 0 1 [\<lparr>msg_style = 4, msg = Some 7\<rparr>]
                (appdata_ptr (app_conv (answering_empty 0))) prompt_heap = (0, Some 100, ?h0)"
    by (simp add: answering_empty_def)
  have env0: "?h0 100 = Some (Response ?e0)"
    by simp
  have sec0: "resp ?e0 = None
            \<or> (\<exists>p bs n. resp ?e0 = Some p \<and> ?h0 p = Some (Chars bs) \<and> nul_index bs = Some n)"
    by simp
  have reg1: "registered linux_pam (session 0 (Some (app_conv (answering 0 ?bs))))
                (app_conv (answering 0 ?bs)) (answering 0 ?bs)"
    by (simp add: registered_def session_def linux_pam_def app_conv_def)
  have run1: "answering 0 ?bs 1 [\<lparr>msg_style = 2, msg = Some 7\<rparr>]
                (appdata_ptr (app_conv (answering 0 ?bs))) prompt_heap = (0, Some 100, ?h1)"
    by (simp add: answering_def)
  have env1: "?h1 100 = Some (Response ?e1)"
    by simp
  have "resp ?e1 = Some 101 \<and> ?h1 101 = Some (Chars ?bs) \<and> nul_index ?bs = Some 2"
    by simp
  then have sec1: "resp ?e1 = None
            \<or> (\<exists>p bs n. resp ?e1 = Some p \<and> ?h1 p = Some (Chars bs) \<and> nul_index bs = Some n)"
    by blast
  from pam_msg_envelope_released_once [OF reg0 run0 env0 sec0]
    pam_msg_envelope_released_once [OF reg1 run1 env1 sec1] reg0
  show ?thesis
    by (simp add: app_conv_def)
qed

subsection \<open>Cleanup on every result code\<close>

text \<open>
  Claim C2. When the callback is invoked and returns an envelope, the cleanup runs
  whatever result code \<open>ret\<close> the callback reports, a failure included: the code is
  returned, and before that the secret buffer, when there is one, is overwritten up to
  its terminator and released, and the envelope is released last. No test of \<open>ret\<close>
  stands between the call and the cleanup, so no error branch skips it.
\<close>

theorem pam_msg_cleanup_unconditional:
  assumes "registered K pamh cv f"
    and "f 1 [\<lparr>msg_style = style, msg = mtext\<rparr>] (appdata_ptr cv) h = (ret, Some r, h1)"
    and "h1 r = Some (Response env)"
    and "resp env = None
       \<or> (\<exists>p bs n. resp env = Some p \<and> h1 p = Some (Chars bs) \<and> nul_index bs = Some n)"
  shows "fst (pam_msg K pamh style mtext h) = ret
       \<and> fault (snd (pam_msg K pamh style mtext h)) = None
       \<and> last (trace (snd (pam_msg K pamh style mtext h))) = Free r (Response env)
       \<and> heap (snd (pam_msg K pamh style mtext h)) r = None
       \<and> (\<forall>p bs n. resp env = Some p \<longrightarrow> h1 p = Some (Chars bs) \<longrightarrow> nul_index bs = Some n \<longrightarrow>
              take 2 (tl (trace (snd (pam_msg K pamh style mtext h))))
                = [Memset p 0 n, Free p (Chars (replicate n 0 @ drop n bs))]
              \<and> heap (snd (pam_msg K pamh style mtext h)) p = None)"
proof (cases "resp env")
  case None
  show ?thesis
    using pam_msg_null_secret [OF assms(1,2,3) None] None by simp
next
  case (Some p)
  with assms(4) obtain bs n where s: "h1 p = Some (Chars bs)" "nul_index bs = Some n"
    by auto
  from assms(3) s(1) have "r \<noteq> p" by auto
  then show ?thesis
    using pam_msg_secret [OF assms(1,2,3) Some s] Some s by simp
qed

text \<open>The callback reports \<^verbatim>\<open>PAM_CONV_ERR\<close> and still hands over the secret \<^verbatim>\<open>"42"\<close>.\<close>

theorem pam_msg_cleanup_unconditional_witness:
  "registered linux_pam (session 0 (Some (app_conv (answering 19 [0x34, 0x32, 0]))))
     (app_conv (answering 19 [0x34, 0x32, 0])) (answering 19 [0x34, 0x32, 0])
   \<and> fst (pam_msg linux_pam (session 0 (Some (app_conv (answering 19 [0x34, 0x32, 0]))))
            2 (Some 7) prompt_heap) = 19
   \<and> take 2 (tl (trace (snd (pam_msg linux_pam
        (session 0 (Some (app_conv (answering 19 [0x34, 0x32, 0])))) 2 (Some 7) prompt_heap))))
       = [Memset 101 0 2, Free 101 (Chars [0, 0, 0])]
   \<and> last (trace (snd (pam_msg linux_pam
        (session 0 (Some (app_conv (answering 19 [0x34, 0x32, 0])))) 2 (Some 7) prompt_heap)))
       = Free 100 (Response \<lparr>resp = Some 101, resp_retcode = 0\<rparr>)
   \<and> heap (snd (pam_msg linux_pam
        (session 0 (Some (app_conv (answering 19 [0x34, 0x32, 0])))) 2 (Some 7) prompt_heap)) 100
       = None
   \<and> heap (snd (pam_msg linux_pam
        (session 0 (Some (app_conv (answering 19 [0x34, 0x32, 0])))) 2 (Some 7) prompt_heap)) 101
       = None"
proof -
  let ?e1 = "\<lparr>resp = Some 101, resp_retcode = 0\<rparr>"
  let ?bs = "[0x34, 0x32, 0] :: byte list"
  let ?h1 = "prompt_heap(100 \<mapsto> Response ?e1, 101 \<mapsto> Chars ?bs)"
  have reg: "registered linux_pam (session 0 (Some (app_conv (answering 19 ?bs))))
               (app_conv (answering 19 ?bs)) (answering 19 ?bs)"
    by (simp add: registered_def session_def linux_pam_def app_conv_def)
  have run: "answering 19 ?bs 1 [\<lparr>msg_style = 2, msg = Some 7\<rparr>]
               (appdata_ptr (app_conv (answering 19 ?bs))) prompt_heap = (19, Some 100, ?h1)"
    by (simp add: answering_def)
  have env: "?h1 100 = Some (Response ?e1)"
    by simp
  have "resp ?e1 = Some 101 \<and> ?h1 101 = Some (Chars ?bs) \<and> nul_index ?bs = Some 2"
    by simp
  then have sec: "resp ?e1 = None
            \<or> (\<exists>p bs n. resp ?e1 = Some p \<and> ?h1 p = Some (Chars bs) \<and> nul_index bs = Some n)"
    by blast
  from pam_msg_cleanup_unconditional [OF reg run env sec] reg show ?thesis
    by simp
qed

subsection \<open>Erasure of the secret\<close>

text \<open>
  Claim C1, as stated: every byte of the secret field is zero when its memory is
  released. The source overwrites \<^verbatim>\<open>strlen(resp->resp)\<close> bytes (line 25), so what lies in
  the block after the first zero byte is released as the callback left it. Here the
  callback hands over a five-byte block that holds \<^verbatim>\<open>"42"\<close>, its terminator, and
  \<^verbatim>\<open>"7"\<close> with a terminator behind it: the block is released with the byte \<^verbatim>\<open>0x37\<close> in it.
\<close>

theorem pam_msg_erasure_counterexample:
  "released 101
     (trace (snd (pam_msg linux_pam
        (session 0 (Some (app_conv (answering 0 [0x34, 0x32, 0, 0x37, 0])))) 2 (Some 7) prompt_heap)))
     = Some (Chars [0, 0, 0, 0x37, 0])
   \<and> \<not> zeroed (Chars [0, 0, 0, 0x37, 0])"
  by (simp add: pam_msg_def session_def linux_pam_def app_conv_def answering_def
      strlen_def memset_def free_def zeroed_def)

text \<open>
  Claim C1, amended. When the callback returns an envelope whose secret field points to
  a block that holds a terminated string, then on every path (whatever code the callback
  reports) the block is released with every byte of the string, up to and including its
  first zero byte, equal to zero; the bytes of the block after that terminator are
  released unchanged. So the whole released block is zero exactly when the bytes behind
  the terminator were zero already, as they are when the block is the string and its
  terminator and nothing more.
\<close>

theorem pam_msg_erases_string:
  assumes "registered K pamh cv f"
    and "f 1 [\<lparr>msg_style = style, msg = mtext\<rparr>] (appdata_ptr cv) h = (ret, Some r, h1)"
    and "h1 r = Some (Response env)" and "resp env = Some p"
    and "h1 p = Some (Chars bs)" and "nul_index bs = Some n"
  shows "released p (trace (snd (pam_msg K pamh style mtext h)))
           = Some (Chars (replicate (Suc n) 0 @ drop (Suc n) bs))
       \<and> zeroed (Chars (replicate (Suc n) 0 @ drop (Suc n) bs))
           = list_all (\<lambda>b. b = 0) (drop (Suc n) bs)
       \<and> heap (snd (pam_msg K pamh style mtext h)) p = None
       \<and> fault (snd (pam_msg K pamh style mtext h)) = None"
proof -
  from assms(3,5) have "r \<noteq> p" by auto
  then show ?thesis
    using pam_msg_secret [OF assms] zeroed_prefix [OF assms(6)] zeroed_replicate [of "Suc n"]
    by simp
qed

theorem pam_msg_erases_string_witness:
  "registered linux_pam (session 0 (Some (app_conv (answering 7 [0x34, 0x32, 0, 0x37, 0]))))
     (app_conv (answering 7 [0x34, 0x32, 0, 0x37, 0])) (answering 7 [0x34, 0x32, 0, 0x37, 0])
   \<and> nul_index [0x34, 0x32, 0, 0x37, 0] = Some 2
   \<and> released 101
       (trace (snd (pam_msg linux_pam
          (session 0 (Some (app_conv (answering 7 [0x34, 0x32, 0, 0x37, 0])))) 2 (Some 7) prompt_heap)))
       = Some (Chars [0, 0, 0, 0x37, 0])
   \<and> heap (snd (pam_msg linux_pam
          (session 0 (Some (app_conv (answering 7 [0x34, 0x32, 0, 0x37, 0])))) 2 (Some 7) prompt_heap))
        101 = None"
proof -
  let ?bs = "[0x34, 0x32, 0, 0x37, 0] :: byte list"
  let ?env = "\<lparr>resp = Some 101, resp_retcode = 0\<rparr>"
  let ?h1 = "prompt_heap(100 \<mapsto> Response ?env, 101 \<mapsto> Chars ?bs)"
  have reg: "registered linux_pam (session 0 (Some (app_conv (answering 7 ?bs))))
               (app_conv (answering 7 ?bs)) (answering 7 ?bs)"
    by (simp add: registered_def session_def linux_pam_def app_conv_def)
  have run: "answering 7 ?bs 1 [\<lparr>msg_style = 2, msg = Some 7\<rparr>]
               (appdata_ptr (app_conv (answering 7 ?bs))) prompt_heap = (7, Some 100, ?h1)"
    by (simp add: answering_def)
  have env: "?h1 100 = Some (Response ?env)" and sec: "resp ?env = Some 101"
    and buf: "?h1 101 = Some (Chars ?bs)"
    by simp_all
  have nul: "nul_index ?bs = Some 2"
    by simp
  from pam_msg_erases_string [OF reg run env sec buf nul] reg nul show ?thesis
    by (simp add: numeral_2_eq_2)
qed

subsection \<open>The value returned\<close>

text \<open>
  Claim C5, as stated: the raw code is translated into the status codes of the
  specification, a code outside the table becoming \<open>Unmapped\<close> of that code. The source
  translates nothing: line 31 returns the callback's \<^verbatim>\<open>int\<close>, and line 15 returns
  \<^verbatim>\<open>PAM_CONV_ERR\<close>. So a callback that reports \<^verbatim>\<open>PAM_CONV_ERR\<close> (19), for which the
  specification gives \<open>Unmapped 19\<close>, and a handle with no conversation, for which it gives
  \<open>ConversationUnavailable\<close>, make \<^verbatim>\<open>pam_msg\<close> return the same value: what the caller gets
  does not tell the two statuses apart.
\<close>

theorem pam_msg_status_counterexample:
  "fst (pam_msg linux_pam (session 0 (Some (app_conv (silent 19)))) 3 (Some 7) prompt_heap)
     = fst (pam_msg linux_pam (session 0 None) 3 (Some 7) prompt_heap)
   \<and> spec_sendMessage linux_pam (session 0 (Some (app_conv (silent 19)))) 3 (Some 7) prompt_heap
     = Unmapped 19
   \<and> spec_sendMessage linux_pam (session 0 None) 3 (Some 7) prompt_heap = ConversationUnavailable"
  by (simp add: pam_msg_def spec_sendMessage_def spec_translate_def session_def linux_pam_def
      app_conv_def silent_def)

text \<open>
  Claim C5, amended. When the callback is invoked and the run does not fault, \<^verbatim>\<open>pam_msg\<close>
  returns the raw code of the callback as it is, with no table and no status type in
  between. A raw code that is \<^verbatim>\<open>PAM_SUCCESS\<close>, \<^verbatim>\<open>PAM_AUTH_ERR\<close>, \<^verbatim>\<open>PAM_USER_UNKNOWN\<close> or
  \<^verbatim>\<open>PAM_IGNORE\<close> is therefore the value pam\_bridge.h names \<^verbatim>\<open>PAM_TOTP_SUCCESS\<close>,
  \<^verbatim>\<open>PAM_TOTP_AUTH_ERR\<close>, \<^verbatim>\<open>PAM_TOTP_USER_UNKNOWN\<close> or \<^verbatim>\<open>PAM_TOTP_IGNORE\<close>, and every other
  raw code is returned with its value kept, \<^verbatim>\<open>PAM_CONV_ERR\<close> included, which is also the
  value returned when there is no conversation.
\<close>

theorem pam_msg_returns_raw_code:
  assumes "registered K pamh cv f"
    and "f 1 [\<lparr>msg_style = style, msg = mtext\<rparr>] (appdata_ptr cv) h = (ret, rp, h1)"
    and "fault (snd (pam_msg K pamh style mtext h)) = None"
  shows "fst (pam_msg K pamh style mtext h) = ret
       \<and> (ret = PAM_SUCCESS K \<longrightarrow> fst (pam_msg K pamh style mtext h) = PAM_TOTP_SUCCESS K)
       \<and> (ret = PAM_AUTH_ERR K \<longrightarrow> fst (pam_msg K pamh style mtext h) = PAM_TOTP_AUTH_ERR K)
       \<and> (ret = PAM_USER_UNKNOWN K \<longrightarrow>
            fst (pam_msg K pamh style mtext h) = PAM_TOTP_USER_UNKNOWN K)
       \<and> (ret = PAM_IGNORE K \<longrightarrow> fst (pam_msg K pamh style mtext h) = PAM_TOTP_IGNORE K)"
  using pam_msg_returns_code [OF assms(1,2)]
  by (simp add: PAM_TOTP_SUCCESS_def PAM_TOTP_AUTH_ERR_def PAM_TOTP_USER_UNKNOWN_def
      PAM_TOTP_IGNORE_def)

text \<open>
  A callback that reports \<^verbatim>\<open>PAM_AUTH_ERR\<close> (7), which the header names, and one that reports
  \<^verbatim>\<open>PAM_ABORT\<close> (26), which it does not.
\<close>

theorem pam_msg_returns_raw_code_witness:
  "registered linux_pam (session 0 (Some (app_conv (silent 7)))) (app_conv (silent 7)) (silent 7)
   \<and> fault (snd (pam_msg linux_pam (session 0 (Some (app_conv (silent 7)))) 3 (Some 7) prompt_heap))
       = None
   \<and> PAM_AUTH_ERR linux_pam = 7
   \<and> fst (pam_msg linux_pam (session 0 (Some (app_conv (silent 7)))) 3 (Some 7) prompt_heap)
       = PAM_TOTP_AUTH_ERR linux_pam
   \<and> fst (pam_msg linux_pam (session 0 (Some (app_conv (silent 26)))) 3 (Some 7) prompt_heap) = 26"
proof -
  have reg: "registered linux_pam (session 0 (Some (app_conv (silent c)))) (app_conv (silent c))
               (silent c)" for c
    by (simp add: registered_def session_def linux_pam_def app_conv_def)
  have run: "silent c 1 [\<lparr>msg_style = 3, msg = Some 7\<rparr>] (appdata_ptr (app_conv (silent c)))
               prompt_heap = (c, None, prompt_heap)" for c
    by (simp add: silent_def)
  have ok: "fault (snd (pam_msg linux_pam (session 0 (Some (app_conv (silent c)))) 3 (Some 7)
                          prompt_heap)) = None" for c
    by (simp add: pam_msg_def session_def linux_pam_def app_conv_def silent_def)
  have code: "PAM_AUTH_ERR linux_pam = 7"
    by (simp add: linux_pam_def)
  from pam_msg_returns_raw_code [OF reg run ok, of 7]
    pam_msg_returns_raw_code [OF reg run ok, of 26] reg [of 7] ok [of 7] code
  show ?thesis
    by simp
qed

subsection \<open>The wrappers\<close>

text \<open>
  Claim C7. For every handle, registered or not, and every text, \<^verbatim>\<open>pam_totp_prompt\<close> is
  \<^verbatim>\<open>pam_msg\<close> with style \<^verbatim>\<open>PAM_PROMPT_ECHO_ON\<close>, \<^verbatim>\<open>pam_totp_info\<close> is \<^verbatim>\<open>pam_msg\<close> with style
  \<^verbatim>\<open>PAM_TEXT_INFO\<close> and \<^verbatim>\<open>pam_totp_error\<close> is \<^verbatim>\<open>pam_msg\<close> with style \<^verbatim>\<open>PAM_ERROR_MSG\<close>: same
  value returned, same effects. Where a conversation is registered, each wrapper's run
  holds one call of the callback, with the single message of that style and the caller's
  text, and the wrapper returns the code that this application of the registered
  function gives.
\<close>

theorem wrappers_fix_style:
  "pam_totp_prompt K pamh mtext h = pam_msg K pamh (PAM_PROMPT_ECHO_ON K) mtext h
   \<and> pam_totp_info K pamh mtext h = pam_msg K pamh (PAM_TEXT_INFO K) mtext h
   \<and> pam_totp_error K pamh mtext h = pam_msg K pamh (PAM_ERROR_MSG K) mtext h
   \<and> (\<forall>cv f. registered K pamh cv f \<longrightarrow>
         filter is_conv_event (trace (snd (pam_totp_prompt K pamh mtext h)))
           = [Conv_invoked 1 [\<lparr>msg_style = PAM_PROMPT_ECHO_ON K, msg = mtext\<rparr>] (appdata_ptr cv)]
       \<and> fst (pam_totp_prompt K pamh mtext h)
           = fst (f 1 [\<lparr>msg_style = PAM_PROMPT_ECHO_ON K, msg = mtext\<rparr>] (appdata_ptr cv) h)
       \<and> filter is_conv_event (trace (snd (pam_totp_info K pamh mtext h)))
           = [Conv_invoked 1 [\<lparr>msg_style = PAM_TEXT_INFO K, msg = mtext\<rparr>] (appdata_ptr cv)]
       \<and> fst (pam_totp_info K pamh mtext h)
           = fst (f 1 [\<lparr>msg_style = PAM_TEXT_INFO K, msg = mtext\<rparr>] (appdata_ptr cv) h)
       \<and> filter is_conv_event (trace (snd (pam_totp_error K pamh mtext h)))
           = [Conv_invoked 1 [\<lparr>msg_style = PAM_ERROR_MSG K, msg = mtext\<rparr>] (appdata_ptr cv)]
       \<and> fst (pam_totp_error K pamh mtext h)
           = fst (f 1 [\<lparr>msg_style = PAM_ERROR_MSG K, msg = mtext\<rparr>] (appdata_ptr cv) h))"
proof -
  have sent: "filter is_conv_event (trace (snd (pam_msg K pamh S mtext h)))
                = [Conv_invoked 1 [\<lparr>msg_style = S, msg = mtext\<rparr>] (appdata_ptr cv)]
            \<and> fst (pam_msg K pamh S mtext h)
                = fst (f 1 [\<lparr>msg_style = S, msg = mtext\<rparr>] (appdata_ptr cv) h)"
    if "registered K pamh cv f" for cv f S
    using pam_msg_dispatch [OF that, of S mtext h] by blast
  show ?thesis
    unfolding pam_totp_prompt_def pam_totp_info_def pam_totp_error_def
    using sent by blast
qed

text \<open>
  A handle with no conversation, where the wrapper returns \<^verbatim>\<open>PAM_CONV_ERR\<close> as \<^verbatim>\<open>pam_msg\<close>
  does, and a handle whose callback reports \<^verbatim>\<open>PAM_AUTH_ERR\<close> (7).
\<close>

theorem wrappers_fix_style_witness:
  "pam_totp_prompt linux_pam (session 0 None) (Some 7) prompt_heap
     = (19, \<lparr>heap = prompt_heap, trace = [], fault = None\<rparr>)
   \<and> registered linux_pam (session 0 (Some (app_conv (answering 7 [0x34, 0x32, 0]))))
     (app_conv (answering 7 [0x34, 0x32, 0])) (answering 7 [0x34, 0x32, 0])
   \<and> filter is_conv_event (trace (snd (pam_totp_prompt linux_pam
        (session 0 (Some (app_conv (answering 7 [0x34, 0x32, 0])))) (Some 7) prompt_heap)))
       = [Conv_invoked 1 [\<lparr>msg_style = 2, msg = Some 7\<rparr>] (Some 1)]
   \<and> filter is_conv_event (trace (snd (pam_totp_info linux_pam
        (session 0 (Some (app_conv (answering 7 [0x34, 0x32, 0])))) (Some 7) prompt_heap)))
       = [Conv_invoked 1 [\<lparr>msg_style = 4, msg = Some 7\<rparr>] (Some 1)]
   \<and> filter is_conv_event (trace (snd (pam_totp_error linux_pam
        (session 0 (Some (app_conv (answering 7 [0x34, 0x32, 0])))) (Some 7) prompt_heap)))
       = [Conv_invoked 1 [\<lparr>msg_style = 3, msg = Some 7\<rparr>] (Some 1)]
   \<and> fst (pam_totp_prompt linux_pam
        (session 0 (Some (app_conv (answering 7 [0x34, 0x32, 0])))) (Some 7) prompt_heap) = 7"
proof -
  let ?f = "answering 7 [0x34, 0x32, 0]"
  let ?pamh = "session 0 (Some (app_conv ?f))"
  have reg: "registered linux_pam ?pamh (app_conv ?f) ?f"
    by (simp add: registered_def session_def linux_pam_def app_conv_def)
  have styles: "PAM_PROMPT_ECHO_ON linux_pam = 2" "PAM_TEXT_INFO linux_pam = 4"
    "PAM_ERROR_MSG linux_pam = 3"
    by (simp_all add: linux_pam_def)
  have ad: "appdata_ptr (app_conv ?f) = Some 1"
    by (simp add: app_conv_def)
  have val: "fst (answering 7 bs n ms ad h) = 7" for bs n ms ad h
    by (simp add: answering_def)
  have none: "pam_msg linux_pam (session 0 None) 2 (Some 7) prompt_heap
                = (19, \<lparr>heap = prompt_heap, trace = [], fault = None\<rparr>)"
    by (simp add: pam_msg_def session_def linux_pam_def)
  have eq: "pam_totp_prompt linux_pam (session 0 None) (Some 7) prompt_heap
              = pam_msg linux_pam (session 0 None) 2 (Some 7) prompt_heap"
    using wrappers_fix_style [of linux_pam "session 0 None" "Some 7" prompt_heap]
    by (simp add: styles)
  from wrappers_fix_style [of linux_pam ?pamh "Some 7" prompt_heap] reg
  have "filter is_conv_event (trace (snd (pam_totp_prompt linux_pam ?pamh (Some 7) prompt_heap)))
          = [Conv_invoked 1 [\<lparr>msg_style = 2, msg = Some 7\<rparr>] (Some 1)]
      \<and> filter is_conv_event (trace (snd (pam_totp_info linux_pam ?pamh (Some 7) prompt_heap)))
          = [Conv_invoked 1 [\<lparr>msg_style = 4, msg = Some 7\<rparr>] (Some 1)]
      \<and> filter is_conv_event (trace (snd (pam_totp_error linux_pam ?pamh (Some 7) prompt_heap)))
          = [Conv_invoked 1 [\<lparr>msg_style = 3, msg = Some 7\<rparr>] (Some 1)]
      \<and> fst (pam_totp_prompt linux_pam ?pamh (Some 7) prompt_heap) = 7"
    by (auto simp: styles ad val)
  with eq none reg show ?thesis
    by simp
qed

subsection \<open>The result does not depend on the secret\<close>

text \<open>
  Claim C8. Take two runs of \<^verbatim>\<open>pam_msg\<close> on the same heap with the same style and text,
  whose callbacks report the same raw code and leave the same heap but for the content
  of the secret buffer (a terminated string in both). The two runs return the same
  value, and they leave the same heap: the secret buffer and the envelope are gone and
  nothing else has changed, so no byte of the secret has gone into the result or into
  memory that outlives the call. Neither run faults.
\<close>

theorem pam_msg_result_independent_of_secret:
  assumes "registered K pamh cv f" and "registered K pamh' cv' f'"
    and "f 1 [\<lparr>msg_style = style, msg = mtext\<rparr>] (appdata_ptr cv) h = (ret, Some r, h1)"
    and "f' 1 [\<lparr>msg_style = style, msg = mtext\<rparr>] (appdata_ptr cv') h
           = (ret, Some r, h1(p \<mapsto> Chars bs'))"
    and "h1 r = Some (Response env)" and "resp env = Some p"
    and "h1 p = Some (Chars bs)" and "nul_index bs = Some n" and "nul_index bs' = Some n'"
  shows "fst (pam_msg K pamh' style mtext h) = fst (pam_msg K pamh style mtext h)
       \<and> heap (snd (pam_msg K pamh' style mtext h)) = heap (snd (pam_msg K pamh style mtext h))
       \<and> heap (snd (pam_msg K pamh style mtext h)) = h1(p := None, r := None)
       \<and> fault (snd (pam_msg K pamh style mtext h)) = None
       \<and> fault (snd (pam_msg K pamh' style mtext h)) = None"
proof -
  from assms(5,7) have ne: "r \<noteq> p" by auto
  then have env': "(h1(p \<mapsto> Chars bs')) r = Some (Response env)"
    using assms(5) by simp
  have buf': "(h1(p \<mapsto> Chars bs')) p = Some (Chars bs')" by simp
  show ?thesis
    using pam_msg_secret [OF assms(1,3,5,6,7,8)]
      pam_msg_secret [OF assms(2,4) env' assms(6) buf' assms(9)]
    by (auto simp: fun_eq_iff)
qed

text \<open>The user typed \<^verbatim>\<open>"42"\<close> in one run and \<^verbatim>\<open>"1337"\<close> in the other.\<close>

theorem pam_msg_result_independent_of_secret_witness:
  "registered linux_pam (session 0 (Some (app_conv (answering 0 [0x34, 0x32, 0]))))
     (app_conv (answering 0 [0x34, 0x32, 0])) (answering 0 [0x34, 0x32, 0])
   \<and> registered linux_pam (session 0 (Some (app_conv (answering 0 [0x31, 0x33, 0x33, 0x37, 0]))))
     (app_conv (answering 0 [0x31, 0x33, 0x33, 0x37, 0])) (answering 0 [0x31, 0x33, 0x33, 0x37, 0])
   \<and> fst (pam_msg linux_pam (session 0 (Some (app_conv (answering 0 [0x31, 0x33, 0x33, 0x37, 0]))))
        2 (Some 7) prompt_heap)
     = fst (pam_msg linux_pam (session 0 (Some (app_conv (answering 0 [0x34, 0x32, 0]))))
        2 (Some 7) prompt_heap)
   \<and> heap (snd (pam_msg linux_pam (session 0 (Some (app_conv (answering 0 [0x31, 0x33, 0x33, 0x37, 0]))))
        2 (Some 7) prompt_heap))
     = heap (snd (pam_msg linux_pam (session 0 (Some (app_conv (answering 0 [0x34, 0x32, 0]))))
        2 (Some 7) prompt_heap))"
proof -
  let ?bs = "[0x34, 0x32, 0] :: byte list"
  let ?bs' = "[0x31, 0x33, 0x33, 0x37, 0] :: byte list"
  let ?env = "\<lparr>resp = Some 101, resp_retcode = 0\<rparr>"
  let ?h1 = "prompt_heap(100 \<mapsto> Response ?env, 101 \<mapsto> Chars ?bs)"
  have reg: "registered linux_pam (session 0 (Some (app_conv (answering 0 bs))))
               (app_conv (answering 0 bs)) (answering 0 bs)" for bs
    by (simp add: registered_def session_def linux_pam_def app_conv_def)
  have run: "answering 0 ?bs 1 [\<lparr>msg_style = 2, msg = Some 7\<rparr>]
               (appdata_ptr (app_conv (answering 0 ?bs))) prompt_heap = (0, Some 100, ?h1)"
    by (simp add: answering_def)
  have run': "answering 0 ?bs' 1 [\<lparr>msg_style = 2, msg = Some 7\<rparr>]
               (appdata_ptr (app_conv (answering 0 ?bs'))) prompt_heap
               = (0, Some 100, ?h1(101 \<mapsto> Chars ?bs'))"
    by (simp add: answering_def)
  have env: "?h1 100 = Some (Response ?env)" and sec: "resp ?env = Some 101"
    and buf: "?h1 101 = Some (Chars ?bs)"
    by simp_all
  have nul: "nul_index ?bs = Some 2" and nul': "nul_index ?bs' = Some 4"
    by simp_all
  from pam_msg_result_independent_of_secret [OF reg reg run run' env sec buf nul nul']
    reg [of ?bs] reg [of ?bs']
  show ?thesis
    by simp
qed

subsection \<open>The caller's text\<close>




end
